theory Spec2Isabelle
  imports Main "HOL-Library.Sublist" "HOL-Library.Multiset"
begin

section \<open>The diary application of \<^verbatim>\<open>src/index.tsx\<close>\<close>

text \<open>
  The program is one browser script: five global variables, a set of handlers that
  change them, and two render functions that rebuild the entries container from them.
  The model keeps the globals in a record, every handler is a function from the state
  to the next state, and the entries container is a field of the state, so that a
  click can only name a button the last rendering has put on the page.

  Boundaries of the model.
  \<^item> Strings are \<open>string\<close>; \<open>toLowerCase\<close> and \<open>trim\<close> are the ASCII ones.
  \<^item> An id is an \<open>int\<close> (the source's \<open>number\<close>, which \<open>Date.now()\<close> fills with an
    integer). The values of \<open>Date.now()\<close> and of \<open>toLocaleDateString\<close> are inputs.
  \<^item> \<open>saveEntries\<close> copies the array to localStorage, catches every error and changes
    no variable of the program; it is left out, as are the modal, the loader, the
    header and the navigation buttons. The DOM elements looked up at the top of the
    file are taken to exist.
  \<^item> The HTML of an article is kept as its parts: the id, the class \<open>collapsed\<close>, the
    texts, and the elements with a \<open>data-id\<close> that the template writes. The templates
    put the title, date, content and summary of an entry, and the search query of the
    "no results" message, into \<open>innerHTML\<close> as they are, so a text with markup can add
    further elements. The browser's reading of such a text is bounded from above: a text
    without \<open><\<close> adds nothing, a text with \<open><\<close> may add any button or header. That it
    can also swallow elements of the template is left out.
  \<^item> The text-generation capability is a function from the prompt to \<open>Some\<close> text, or
    \<open>None\<close> when the call throws or rejects; the variable \<open>ai\<close> is \<open>None\<close> when the
    initialisation failed. The fixed instruction texts of the two prompts are the
    constructors of \<open>prompt\<close>.
  \<^item> The two handlers with an \<open>await\<close>, \<open>handleFormSubmit\<close> and \<open>handleAiCoach\<close>,
    are given in their halves, before and after the \<open>await\<close>, so that other events
    can be placed between them. The handler of the same name is the two halves with
    nothing in between, and \<open>step\<close> and \<open>run\<close> use it: they are the page with every
    handler run to its end.
\<close>

subsection \<open>App state\<close>

datatype status = Active | Trashed

record DiaryEntry =
  entry_id :: int
  date :: string
  title :: string
  content :: string
  status :: status
  coachSummary :: "string option"

datatype view = Diary | Trash

datatype button = EditBtn | AiCoachBtn | RestoreBtn | DeletePermBtn

text \<open>
  What a click in the entries container can hit: a button with a \<open>data-id\<close>, or the
  header of a diary article.
\<close>

datatype target = ButtonTarget button int | HeaderTarget int

text \<open>
  One \<open>article\<close> element appended to the entries container. \<open>targets\<close> are the
  elements with a \<open>data-id\<close> that the template itself writes; \<open>unescaped\<close> are the
  strings it puts into \<open>innerHTML\<close> as they are.
\<close>

record article =
  data_id :: int
  collapsed :: bool
  h3 :: string
  entry_date :: string
  entry_content :: string
  coachSummaryHtml :: "string option"
  targets :: "target list"
  unescaped :: "string list"

datatype placeholder = NoResults string | DiaryEmpty | NoResultsInTrash string | TrashEmpty

datatype container = Placeholder placeholder | Articles "article list"

record app_state =
  entries :: "DiaryEntry list"
  currentlyEditingEntryId :: "int option"
  currentView :: view
  searchQuery :: string
  expandedEntryId :: "int option"
  entriesContainer :: container

subsection \<open>Strings and arrays of the host language\<close>

definition toLowerCaseChar :: "char \<Rightarrow> char" where
  "toLowerCaseChar c =
     (case map_of (zip ''ABCDEFGHIJKLMNOPQRSTUVWXYZ'' ''abcdefghijklmnopqrstuvwxyz'') c of
        None \<Rightarrow> c
      | Some l \<Rightarrow> l)"

definition toLowerCase :: "string \<Rightarrow> string" where
  "toLowerCase s = map toLowerCaseChar s"

text \<open>\<open>s.includes(q)\<close>: \<open>q\<close> occurs in \<open>s\<close> as a contiguous run.\<close>

fun includesStr :: "string \<Rightarrow> string \<Rightarrow> bool" where
  "includesStr [] q = (q = [])"
| "includesStr (c # cs) q = (prefix q (c # cs) \<or> includesStr cs q)"

definition isWhiteSpace :: "char \<Rightarrow> bool" where
  "isWhiteSpace c =
     (c \<in> set [CHR 0x09, CHR 0x0A, CHR 0x0B, CHR 0x0C, CHR 0x0D, CHR '' ''])"

definition trim :: "string \<Rightarrow> string" where
  "trim s = rev (dropWhile isWhiteSpace (rev (dropWhile isWhiteSpace s)))"

text \<open>\<open>xs.findIndex(p)\<close>; \<open>None\<close> is the source's \<open>-1\<close>.\<close>

fun findIndex :: "('a \<Rightarrow> bool) \<Rightarrow> 'a list \<Rightarrow> nat option" where
  "findIndex p [] = None"
| "findIndex p (x # xs) =
     (if p x then Some 0 else (case findIndex p xs of None \<Rightarrow> None | Some i \<Rightarrow> Some (Suc i)))"

text \<open>Truthiness of a string, of an optional string and of an optional number.\<close>

definition truthy :: "string \<Rightarrow> bool" where
  "truthy s = (s \<noteq> [])"

fun truthyOpt :: "string option \<Rightarrow> bool" where
  "truthyOpt None = False"
| "truthyOpt (Some s) = truthy s"

fun truthyId :: "int option \<Rightarrow> bool" where
  "truthyId None = False"
| "truthyId (Some i) = (i \<noteq> 0)"

subsection \<open>Rendering\<close>

text \<open>The predicate of the search filter (lines 86-90 and 151-155).\<close>

definition matchesQuery :: "string \<Rightarrow> DiaryEntry \<Rightarrow> bool" where
  "matchesQuery lowerCaseQuery entry =
     (includesStr (toLowerCase (title entry)) lowerCaseQuery \<or>
      includesStr (toLowerCase (content entry)) lowerCaseQuery \<or>
      (case coachSummary entry of
         None \<Rightarrow> False
       | Some s \<Rightarrow> truthy s \<and> includesStr (toLowerCase s) lowerCaseQuery))"

text \<open>
  Lines 81-93 and 147-158: the entries of one status, filtered by the query when there
  is one, sorted by \<open>b.id - a.id\<close>. \<open>Array.prototype.sort\<close> is stable; so is
  \<open>sort_key\<close>.
\<close>

definition visibleEntries :: "status \<Rightarrow> string \<Rightarrow> DiaryEntry list \<Rightarrow> DiaryEntry list" where
  "visibleEntries s query es =
     (let statusEntries = filter (\<lambda>e. status e = s) es;
          found = (if truthy query
                   then filter (matchesQuery (toLowerCase query)) statusEntries
                   else statusEntries)
      in sort_key (\<lambda>e. - entry_id e) found)"

definition diaryArticle :: "int option \<Rightarrow> string \<Rightarrow> DiaryEntry \<Rightarrow> article" where
  "diaryArticle expandedId query entry =
     (let isExpanded = (Some (entry_id entry) = expandedId \<and> \<not> truthy query)
      in \<lparr>data_id = entry_id entry,
          collapsed = (\<not> isExpanded),
          h3 = title entry,
          entry_date = date entry,
          entry_content = content entry,
          coachSummaryHtml =
            (if truthyOpt (coachSummary entry) then coachSummary entry else None),
          targets =
            [HeaderTarget (entry_id entry)]
            @ (if \<not> truthyOpt (coachSummary entry)
               then [ButtonTarget AiCoachBtn (entry_id entry)] else [])
            @ [ButtonTarget EditBtn (entry_id entry)],
          unescaped =
            [title entry, date entry, content entry]
            @ (case coachSummary entry of
                 None \<Rightarrow> []
               | Some s \<Rightarrow> (if truthy s then [s] else []))\<rparr>)"

definition trashArticle :: "DiaryEntry \<Rightarrow> article" where
  "trashArticle entry =
     \<lparr>data_id = entry_id entry,
      collapsed = False,
      h3 = title entry,
      entry_date = date entry,
      entry_content = content entry,
      coachSummaryHtml = None,
      targets = [ButtonTarget RestoreBtn (entry_id entry),
                 ButtonTarget DeletePermBtn (entry_id entry)],
      unescaped = [title entry, date entry, content entry]\<rparr>"

definition renderDiaryPage :: "app_state \<Rightarrow> app_state" where
  "renderDiaryPage st =
     (let st1 = (if truthy (searchQuery st) then st\<lparr>expandedEntryId := None\<rparr> else st);
          activeEntries = visibleEntries Active (searchQuery st1) (entries st1)
      in if activeEntries = []
         then st1\<lparr>entriesContainer :=
                Placeholder (if truthy (searchQuery st1) then NoResults (searchQuery st1)
                             else DiaryEmpty)\<rparr>
         else st1\<lparr>entriesContainer :=
                Articles (map (diaryArticle (expandedEntryId st1) (searchQuery st1))
                            activeEntries)\<rparr>)"

definition renderTrashPage :: "app_state \<Rightarrow> app_state" where
  "renderTrashPage st =
     (let trashedEntries = visibleEntries Trashed (searchQuery st) (entries st)
      in if trashedEntries = []
         then st\<lparr>entriesContainer :=
                Placeholder (if truthy (searchQuery st) then NoResultsInTrash (searchQuery st)
                             else TrashEmpty)\<rparr>
         else st\<lparr>entriesContainer := Articles (map trashArticle trashedEntries)\<rparr>)"

definition renderApp :: "app_state \<Rightarrow> app_state" where
  "renderApp st = (if currentView st = Diary then renderDiaryPage st else renderTrashPage st)"

subsection \<open>The generator\<close>

datatype prompt = TitlePrompt string | CoachPrompt string

type_synonym capability = "prompt \<Rightarrow> string option"

text \<open>
  Both functions return their result together with the prompts they have sent to the
  capability, in order.
\<close>

definition generateTitle :: "capability option \<Rightarrow> string \<Rightarrow> string \<Rightarrow> string \<times> prompt list" where
  "generateTitle ai content' dateString =
     (case ai of
        None \<Rightarrow> (dateString, [])
      | Some generateContent \<Rightarrow>
          (let prompt = TitlePrompt content'
           in case generateContent prompt of
                None \<Rightarrow> (dateString, [prompt])
              | Some text \<Rightarrow>
                  (if truthy (trim text) then trim text else dateString, [prompt])))"

definition getAiCoachSummary :: "capability option \<Rightarrow> string \<Rightarrow> string \<times> prompt list" where
  "getAiCoachSummary ai content' =
     (case ai of
        None \<Rightarrow> (''AI is currently unavailable.'', [])
      | Some generateContent \<Rightarrow>
          (let prompt = CoachPrompt content'
           in case generateContent prompt of
                None \<Rightarrow> (''Could not generate a summary at this time.'', [prompt])
              | Some text \<Rightarrow> (trim text, [prompt])))"

subsection \<open>Event handlers\<close>

definition toggleModal :: "bool \<Rightarrow> app_state \<Rightarrow> app_state" where
  "toggleModal show st = (if show then st else st\<lparr>currentlyEditingEntryId := None\<rparr>)"

definition openEditModal :: "int \<Rightarrow> app_state \<Rightarrow> app_state" where
  "openEditModal entryId st =
     (case find (\<lambda>e. entry_id e = entryId) (entries st) of
        None \<Rightarrow> st
      | Some entry \<Rightarrow> toggleModal True (st\<lparr>currentlyEditingEntryId := Some (entry_id entry)\<rparr>))"

text \<open>
  \<open>handleFormSubmit\<close> in its halves. \<open>now\<close> is the value of \<open>Date.now()\<close>,
  \<open>today\<close> the formatted date, the last two arguments of the first half the values
  of the two form fields. \<open>if (entryIdToEdit)\<close> tests the number by truthiness.

  The first half runs up to an \<open>await\<close>, if it meets one, and says what it waits for:
  the title for an edit, with the index it has found and the new content, or the title
  for a new entry, with its date and content. The title is the one \<open>generateTitle\<close>
  will return for the call made here. Without an \<open>await\<close> the handler is finished.
\<close>

datatype suspended =
    Finished
  | EditAwaitsTitle nat string string
  | CreateAwaitsTitle string string string

definition handleFormSubmit_request ::
    "capability option \<Rightarrow> int \<Rightarrow> string \<Rightarrow> string \<Rightarrow> string \<Rightarrow> app_state
       \<Rightarrow> app_state \<times> suspended" where
  "handleFormSubmit_request ai now today entryContentValue entryTitleValue st =
     (let content' = trim entryContentValue;
          userTypedTitle = trim entryTitleValue
      in if \<not> truthy content' then (st, Finished)
         else
           let entryIdToEdit = currentlyEditingEntryId st;
               st1 = toggleModal False st
           in if truthyId entryIdToEdit
              then
                (case findIndex (\<lambda>e. Some (entry_id e) = entryIdToEdit) (entries st1) of
                   None \<Rightarrow> ((renderApp st1)\<lparr>currentlyEditingEntryId := None\<rparr>, Finished)
                 | Some entryIndex \<Rightarrow>
                     let existingEntry = entries st1 ! entryIndex
                     in if content existingEntry = content'
                        then ((renderApp
                                 (st1\<lparr>entries :=
                                    (entries st1)[entryIndex :=
                                       existingEntry\<lparr>title := userTypedTitle\<rparr>]\<rparr>))
                                \<lparr>currentlyEditingEntryId := None\<rparr>,
                              Finished)
                        else (st1,
                              EditAwaitsTitle entryIndex content'
                                (fst (generateTitle ai content' (date existingEntry)))))
              else
                let date' = today
                in if truthy userTypedTitle
                   then
                     let newEntry = \<lparr>entry_id = now, date = date', title = userTypedTitle,
                                     content = content', status = Active,
                                     coachSummary = None\<rparr>
                     in ((renderApp
                            (st1\<lparr>entries := entries st1 @ [newEntry],
                                 expandedEntryId := Some (entry_id newEntry)\<rparr>))
                           \<lparr>currentlyEditingEntryId := None\<rparr>,
                         Finished)
                   else (st1,
                         CreateAwaitsTitle date' content'
                           (fst (generateTitle ai content' date'))))"

text \<open>
  The second half of an edit, lines 422-427 and what follows them. It reads the
  variable \<open>entries\<close> again and writes at the index of the first half.
  \<open>existingEntry\<close> is the object the first half has found, as it is now: the handlers
  that change a status write into the object (lines 464 and 509). An index at the end
  of the array appends. An index past the end leaves an empty slot in the array, which
  a list cannot hold: that outcome is \<open>None\<close>.
\<close>

definition handleFormSubmit_resumeEdit ::
    "nat \<Rightarrow> DiaryEntry \<Rightarrow> string \<Rightarrow> string \<Rightarrow> app_state \<Rightarrow> app_state option" where
  "handleFormSubmit_resumeEdit entryIndex existingEntry content' newTitle st =
     (let written = existingEntry\<lparr>content := content', title := newTitle,
                                  coachSummary := None\<rparr>
      in if entryIndex < length (entries st)
         then Some ((renderApp (st\<lparr>entries := (entries st)[entryIndex := written]\<rparr>))
                      \<lparr>currentlyEditingEntryId := None\<rparr>)
         else if entryIndex = length (entries st)
         then Some ((renderApp (st\<lparr>entries := entries st @ [written]\<rparr>))
                      \<lparr>currentlyEditingEntryId := None\<rparr>)
         else None)"

text \<open>The second half of a creation, lines 435-443 and what follows them.\<close>

definition handleFormSubmit_resumeCreate ::
    "string \<Rightarrow> string \<Rightarrow> string \<Rightarrow> int \<Rightarrow> app_state \<Rightarrow> app_state" where
  "handleFormSubmit_resumeCreate date' content' title' now st =
     (let newEntry = \<lparr>entry_id = now, date = date', title = title', content = content',
                      status = Active, coachSummary = None\<rparr>
      in (renderApp
            (st\<lparr>entries := entries st @ [newEntry],
                expandedEntryId := Some (entry_id newEntry)\<rparr>))
           \<lparr>currentlyEditingEntryId := None\<rparr>)"

text \<open>
  \<open>handleFormSubmit\<close> with nothing happening during the \<open>await\<close>. The index is the
  one just found, so the write of an edit is inside the array.
\<close>

definition handleFormSubmit ::
    "capability option \<Rightarrow> int \<Rightarrow> string \<Rightarrow> string \<Rightarrow> string \<Rightarrow> app_state \<Rightarrow> app_state" where
  "handleFormSubmit ai now today entryContentValue entryTitleValue st =
     (case handleFormSubmit_request ai now today entryContentValue entryTitleValue st of
        (st1, Finished) \<Rightarrow> st1
      | (st1, EditAwaitsTitle entryIndex content' newTitle) \<Rightarrow>
          (case handleFormSubmit_resumeEdit entryIndex (entries st1 ! entryIndex)
                  content' newTitle st1 of
             Some st2 \<Rightarrow> st2
           | None \<Rightarrow> st1)
      | (st1, CreateAwaitsTitle date' content' title') \<Rightarrow>
          handleFormSubmit_resumeCreate date' content' title' now st1)"

definition handleDeleteEntry :: "app_state \<Rightarrow> app_state" where
  "handleDeleteEntry st =
     (if \<not> truthyId (currentlyEditingEntryId st) then st
      else
        (case findIndex (\<lambda>e. Some (entry_id e) = currentlyEditingEntryId st) (entries st) of
           None \<Rightarrow> st
         | Some entryIndex \<Rightarrow>
             renderApp (toggleModal False
               (st\<lparr>entries :=
                    (entries st)[entryIndex := (entries st ! entryIndex)\<lparr>status := Trashed\<rparr>]\<rparr>))))"

text \<open>
  \<open>handleAiCoach\<close> in its two halves. The first runs up to the \<open>await\<close>: it looks the
  index up and hands the entry's content to the generator; \<open>None\<close> is the early
  return. The second runs when the summary arrives: it reads the variable \<open>entries\<close>
  again, at the index found by the first half. Writing a property of
  \<open>entries[entryIndex]\<close> when the index is past the end throws, and the \<open>catch\<close>
  only renders.
\<close>

definition handleAiCoach_request :: "int \<Rightarrow> app_state \<Rightarrow> (nat \<times> string) option" where
  "handleAiCoach_request i st =
     (case findIndex (\<lambda>e. entry_id e = i) (entries st) of
        None \<Rightarrow> None
      | Some entryIndex \<Rightarrow> Some (entryIndex, content (entries st ! entryIndex)))"

definition handleAiCoach_resume :: "nat \<Rightarrow> string \<Rightarrow> app_state \<Rightarrow> app_state" where
  "handleAiCoach_resume entryIndex summary st =
     (if entryIndex < length (entries st)
      then renderApp
             (st\<lparr>entries :=
                  (entries st)[entryIndex :=
                     (entries st ! entryIndex)\<lparr>coachSummary := Some summary\<rparr>]\<rparr>)
      else renderApp st)"

text \<open>\<open>handleAiCoach\<close> with nothing happening during the \<open>await\<close>.\<close>

definition handleAiCoach :: "capability option \<Rightarrow> int \<Rightarrow> app_state \<Rightarrow> app_state" where
  "handleAiCoach ai i st =
     (case handleAiCoach_request i st of
        None \<Rightarrow> st
      | Some (entryIndex, content') \<Rightarrow>
          handleAiCoach_resume entryIndex (fst (getAiCoachSummary ai content')) st)"

definition handleRestoreEntry :: "int \<Rightarrow> app_state \<Rightarrow> app_state" where
  "handleRestoreEntry i st =
     (case findIndex (\<lambda>e. entry_id e = i) (entries st) of
        None \<Rightarrow> st
      | Some entryIndex \<Rightarrow>
          renderApp
            (st\<lparr>entries :=
                 (entries st)[entryIndex := (entries st ! entryIndex)\<lparr>status := Active\<rparr>]\<rparr>))"

text \<open>\<open>confirmed\<close> is the answer to the \<open>confirm\<close> dialogue.\<close>

definition handlePermanentDelete :: "bool \<Rightarrow> int \<Rightarrow> app_state \<Rightarrow> app_state" where
  "handlePermanentDelete confirmed i st =
     (if \<not> confirmed then st
      else renderApp (st\<lparr>entries := filter (\<lambda>e. entry_id e \<noteq> i) (entries st)\<rparr>))"

definition handleNavigation :: "string \<Rightarrow> app_state \<Rightarrow> app_state" where
  "handleNavigation hash st =
     renderApp (st\<lparr>currentView := (if hash = ''#trash'' then Trash else Diary),
                   searchQuery := [],
                   expandedEntryId := None\<rparr>)"

text \<open>The delegated click listener of the entries container (lines 555-587).\<close>

fun entriesContainerClick :: "capability option \<Rightarrow> bool \<Rightarrow> target \<Rightarrow> app_state \<Rightarrow> app_state" where
  "entriesContainerClick ai confirmed (ButtonTarget EditBtn i) st = openEditModal i st"
| "entriesContainerClick ai confirmed (ButtonTarget AiCoachBtn i) st = handleAiCoach ai i st"
| "entriesContainerClick ai confirmed (ButtonTarget RestoreBtn i) st = handleRestoreEntry i st"
| "entriesContainerClick ai confirmed (ButtonTarget DeletePermBtn i) st =
     handlePermanentDelete confirmed i st"
| "entriesContainerClick ai confirmed (HeaderTarget i) st =
     (if currentView st = Diary
      then renderApp (st\<lparr>expandedEntryId :=
                          (if expandedEntryId st = Some i then None else Some i)\<rparr>)
      else st)"

definition searchInputInput :: "string \<Rightarrow> app_state \<Rightarrow> app_state" where
  "searchInputInput v st = renderApp (st\<lparr>searchQuery := v\<rparr>)"

subsection \<open>The page as a transition system\<close>

text \<open>
  The events the listeners at the end of the file are registered for, each with the
  inputs its handler reads from outside the program.
\<close>

datatype event =
    AddEntryClick
  | CancelClick
  | DeleteBtnClick
  | FormSubmit "capability option" int string string string
  | ContainerClick "capability option" bool target
  | SearchInput string
  | HashChange string

fun step :: "event \<Rightarrow> app_state \<Rightarrow> app_state" where
  "step AddEntryClick st = toggleModal True st"
| "step CancelClick st = toggleModal False st"
| "step DeleteBtnClick st = handleDeleteEntry st"
| "step (FormSubmit ai now today c t) st = handleFormSubmit ai now today c t st"
| "step (ContainerClick ai confirmed tg) st = entriesContainerClick ai confirmed tg st"
| "step (SearchInput v) st = searchInputInput v st"
| "step (HashChange hash) st = handleNavigation hash st"

fun run :: "event list \<Rightarrow> app_state \<Rightarrow> app_state" where
  "run [] st = st"
| "run (ev # evs) st = run evs (step ev st)"

text \<open>The elements with a \<open>data-id\<close> that the templates have written on the page.\<close>

fun targetsOf :: "container \<Rightarrow> target list" where
  "targetsOf (Placeholder p) = []"
| "targetsOf (Articles as) = concat (map targets as)"

text \<open>
  The strings the page holds unescaped, and whether one of them can be read as markup
  that adds elements.
\<close>

fun unescapedOf :: "container \<Rightarrow> string list" where
  "unescapedOf (Placeholder (NoResults q)) = [q]"
| "unescapedOf (Placeholder (NoResultsInTrash q)) = [q]"
| "unescapedOf (Placeholder p) = []"
| "unescapedOf (Articles as) = concat (map unescaped as)"

definition mayAddElements :: "string \<Rightarrow> bool" where
  "mayAddElements s = (CHR ''<'' \<in> set s)"

definition markupOn :: "container \<Rightarrow> bool" where
  "markupOn c = list_ex mayAddElements (unescapedOf c)"

text \<open>A click in the container hits an element a template has written.\<close>

fun hitsTemplate :: "event \<Rightarrow> app_state \<Rightarrow> bool" where
  "hitsTemplate (ContainerClick ai confirmed tg) st =
     (tg \<in> set (targetsOf (entriesContainer st)))"
| "hitsTemplate ev st = True"

text \<open>
  A click in the container hits an element that is on the page: one a template has
  written, or one that markup in a text of the page has added. The second part is the
  upper bound on what markup can add. On a page without \<open><\<close> in its texts this is
  \<open>hitsTemplate\<close>.
\<close>

fun enabled :: "event \<Rightarrow> app_state \<Rightarrow> bool" where
  "enabled (ContainerClick ai confirmed tg) st =
     (tg \<in> set (targetsOf (entriesContainer st)) \<or> markupOn (entriesContainer st))"
| "enabled ev st = True"

text \<open>
  The state when the page has loaded and localStorage holds nothing: the declared
  initial values, then \<open>handleNavigation\<close> (lines 617-620).
\<close>

definition emptyStore :: "string \<Rightarrow> app_state" where
  "emptyStore hash =
     handleNavigation hash
       \<lparr>entries = [], currentlyEditingEntryId = None, currentView = Diary,
        searchQuery = [], expandedEntryId = None, entriesContainer = Articles []\<rparr>"

subsection \<open>Runs\<close>

text \<open>The clock reading a submission makes the id of a new entry, when it creates one.\<close>

fun newId :: "event \<Rightarrow> app_state \<Rightarrow> int option" where
  "newId (FormSubmit ai now today c t) st =
     (if truthy (trim c) \<and> \<not> truthyId (currentlyEditingEntryId st) then Some now else None)"
| "newId ev st = None"

text \<open>Every creation of the run reads a clock value that is no id of the store it adds to.\<close>

fun clocksFresh :: "event list \<Rightarrow> app_state \<Rightarrow> bool" where
  "clocksFresh [] st = True"
| "clocksFresh (ev # evs) st =
     ((case newId ev st of None \<Rightarrow> True | Some n \<Rightarrow> n \<notin> entry_id ` set (entries st))
      \<and> clocksFresh evs (step ev st))"

text \<open>No creation of the run reads the clock value \<open>i\<close>.\<close>

fun noCreationAt :: "int \<Rightarrow> event list \<Rightarrow> app_state \<Rightarrow> bool" where
  "noCreationAt i [] st = True"
| "noCreationAt i (ev # evs) st = (newId ev st \<noteq> Some i \<and> noCreationAt i evs (step ev st))"

fun allEnabled :: "event list \<Rightarrow> app_state \<Rightarrow> bool" where
  "allEnabled [] st = True"
| "allEnabled (ev # evs) st = (enabled ev st \<and> allEnabled evs (step ev st))"

text \<open>The page is the rendering of the current state.\<close>

definition pageUpToDate :: "app_state \<Rightarrow> bool" where
  "pageUpToDate st = (entriesContainer (renderApp st) = entriesContainer st)"

text \<open>
  The mutations of the store that name an entry by its id. An update and a soft delete
  name it through \<open>currentlyEditingEntryId\<close>, the other two through their argument.
\<close>

datatype mutation =
    Update "capability option" int string string string
  | SoftDelete
  | Restore
  | PermanentDelete bool

fun mutate :: "int \<Rightarrow> mutation \<Rightarrow> app_state \<Rightarrow> app_state" where
  "mutate i (Update ai now today c t) st =
     handleFormSubmit ai now today c t (st\<lparr>currentlyEditingEntryId := Some i\<rparr>)"
| "mutate i SoftDelete st = handleDeleteEntry (st\<lparr>currentlyEditingEntryId := Some i\<rparr>)"
| "mutate i Restore st = handleRestoreEntry i st"
| "mutate i (PermanentDelete confirmed) st = handlePermanentDelete confirmed i st"

fun mutateAll :: "int \<Rightarrow> mutation list \<Rightarrow> app_state \<Rightarrow> app_state" where
  "mutateAll i [] st = st"
| "mutateAll i (m # ms) st = mutateAll i ms (mutate i m st)"

subsection \<open>The projection\<close>

text \<open>\<open>renderApp\<close> shows the active entries on the diary page and the trashed ones on the other.\<close>

fun viewStatus :: "view \<Rightarrow> status" where
  "viewStatus Diary = Active"
| "viewStatus Trash = Trashed"

fun articlesOf :: "container \<Rightarrow> article list" where
  "articlesOf (Placeholder p) = []"
| "articlesOf (Articles as) = as"

text \<open>
  The selection as the specification words it, to compare \<open>visibleEntries\<close> with: the
  status is the view's and, when there is a query, the lower-cased query is a substring
  of the lower-cased title, content or summary, an absent summary counting as the empty
  string.
\<close>

definition spec_substringTest :: "string \<Rightarrow> string \<Rightarrow> bool" where
  "spec_substringTest query field = sublist (toLowerCase query) (toLowerCase field)"

definition spec_passesSearch :: "string \<Rightarrow> DiaryEntry \<Rightarrow> bool" where
  "spec_passesSearch query e =
     (spec_substringTest query (title e) \<or>
      spec_substringTest query (content e) \<or>
      spec_substringTest query (case coachSummary e of None \<Rightarrow> [] | Some s \<Rightarrow> s))"

definition spec_selected :: "view \<Rightarrow> string \<Rightarrow> DiaryEntry \<Rightarrow> bool" where
  "spec_selected v query e =
     (status e = viewStatus v \<and> (if query = [] then True else spec_passesSearch query e))"

section \<open>Properties\<close>

lemmas handleFormSubmit_defs =
  handleFormSubmit_def handleFormSubmit_request_def handleFormSubmit_resumeEdit_def
  handleFormSubmit_resumeCreate_def

subsection \<open>Rendering changes one variable and the page\<close>

lemma entries_renderApp: "entries (renderApp st) = entries st"
  by (simp add: renderApp_def renderDiaryPage_def renderTrashPage_def Let_def)

lemma currentView_renderApp: "currentView (renderApp st) = currentView st"
  by (simp add: renderApp_def renderDiaryPage_def renderTrashPage_def Let_def)

lemma searchQuery_renderApp: "searchQuery (renderApp st) = searchQuery st"
  by (simp add: renderApp_def renderDiaryPage_def renderTrashPage_def Let_def)

lemma currentlyEditing_renderApp:
  "currentlyEditingEntryId (renderApp st) = currentlyEditingEntryId st"
  by (simp add: renderApp_def renderDiaryPage_def renderTrashPage_def Let_def)

lemma expandedEntryId_renderApp:
  "expandedEntryId (renderApp st) =
     (if currentView st = Diary \<and> searchQuery st \<noteq> [] then None else expandedEntryId st)"
  by (simp add: renderApp_def renderDiaryPage_def renderTrashPage_def Let_def truthy_def)

subsection \<open>Looking an entry up\<close>

lemma findIndex_Some:
  "findIndex p xs = Some k \<Longrightarrow> k < length xs \<and> p (xs ! k) \<and> (\<forall>j<k. \<not> p (xs ! j))"
proof (induction xs arbitrary: k)
  case Nil
  then show ?case by simp
next
  case (Cons x xs)
  show ?case
  proof (cases "p x")
    case True
    with Cons.prems show ?thesis by simp
  next
    case False
    with Cons.prems obtain i where i: "findIndex p xs = Some i" "k = Suc i"
      by (auto split: option.splits)
    from Cons.IH[OF i(1)] False i(2) show ?thesis
      by (auto simp: less_Suc_eq_0_disj)
  qed
qed

lemma findIndex_None: "findIndex p xs = None \<longleftrightarrow> (\<forall>x \<in> set xs. \<not> p x)"
  by (induction xs) (auto split: option.splits)

subsection \<open>The three outcomes of a form submission run to its end\<close>

lemma generateTitle_cases:
  "generateTitle None c d = (d, [])"
  "g (TitlePrompt c) = None \<Longrightarrow> generateTitle (Some g) c d = (d, [TitlePrompt c])"
  "g (TitlePrompt c) = Some t \<Longrightarrow>
     generateTitle (Some g) c d = (if trim t = [] then d else trim t, [TitlePrompt c])"
  by (simp_all add: generateTitle_def truthy_def)

lemma handleFormSubmit_create:
  assumes "trim cv \<noteq> []" and "\<not> truthyId (currentlyEditingEntryId st)"
  shows "entries (handleFormSubmit ai now today cv tv st) =
           entries st @ [\<lparr>entry_id = now, date = today,
                          title = (if trim tv \<noteq> [] then trim tv
                                   else fst (generateTitle ai (trim cv) today)),
                          content = trim cv, status = Active, coachSummary = None\<rparr>]"
  using assms
  by (simp add: handleFormSubmit_defs Let_def truthy_def toggleModal_def entries_renderApp)

lemma handleFormSubmit_update:
  assumes "trim cv \<noteq> []" and "currentlyEditingEntryId st = Some i" and "i \<noteq> 0"
    and "findIndex (\<lambda>e. entry_id e = i) (entries st) = Some k"
  shows "entries (handleFormSubmit ai now today cv tv st) =
           (entries st)[k :=
              (if content (entries st ! k) = trim cv
               then (entries st ! k)\<lparr>title := trim tv\<rparr>
               else (entries st ! k)\<lparr>content := trim cv,
                      title := fst (generateTitle ai (trim cv) (date (entries st ! k))),
                      coachSummary := None\<rparr>)]"
  using assms findIndex_Some[OF assms(4)]
  by (simp add: handleFormSubmit_defs Let_def truthy_def toggleModal_def entries_renderApp)

lemma handleFormSubmit_request_index:
  assumes "handleFormSubmit_request ai now today cv tv st = (st1, EditAwaitsTitle k c t)"
  shows "k < length (entries st1)"
proof -
  have "findIndex (\<lambda>e. Some (entry_id e) = currentlyEditingEntryId st) (entries st) = Some k"
    and "entries st1 = entries st"
    using assms
    by (auto simp: handleFormSubmit_request_def Let_def toggleModal_def
          split: if_splits option.splits)
  with findIndex_Some[of _ "entries st" k] show ?thesis by simp
qed

lemma handleFormSubmit_missing:
  assumes "currentlyEditingEntryId st = Some i" and "i \<noteq> 0"
    and "findIndex (\<lambda>e. entry_id e = i) (entries st) = None"
  shows "entries (handleFormSubmit ai now today cv tv st) = entries st"
  using assms
  by (simp add: handleFormSubmit_defs Let_def truthy_def toggleModal_def entries_renderApp)

subsection \<open>Title generation\<close>

text \<open>
  Claim C6. \<open>generateTitle\<close> returns a string whatever the capability does, a throwing
  call included: with no capability it returns the fallback and sends no prompt; when the
  call fails it returns the fallback; when the call succeeds it returns the trimmed
  text, or the fallback when the trimmed text is empty. So a submission that creates an
  entry with an empty title field, while the capability is unavailable, appends an entry
  whose title is its date string.
\<close>

theorem generateTitle_falls_back:
  "generateTitle None c d = (d, []) \<and>
   (g (TitlePrompt c) = None \<longrightarrow> fst (generateTitle (Some g) c d) = d) \<and>
   (g (TitlePrompt c) = Some t \<longrightarrow>
      fst (generateTitle (Some g) c d) = (if trim t = [] then d else trim t)) \<and>
   (trim cv \<noteq> [] \<and> trim tv = [] \<and> \<not> truthyId (currentlyEditingEntryId st) \<longrightarrow>
      entries (handleFormSubmit None now today cv tv st) =
        entries st @ [\<lparr>entry_id = now, date = today, title = today, content = trim cv,
                       status = Active, coachSummary = None\<rparr>])"
  by (simp add: generateTitle_cases handleFormSubmit_create)

theorem generateTitle_falls_back_witness:
  "fst (generateTitle (Some (\<lambda>p. None)) ''Had a great run today'' ''May 1, 2025'') =
     ''May 1, 2025''
   \<and> fst (generateTitle (Some (\<lambda>p. Some '' Great Run '')) ''Had a great run today''
            ''May 1, 2025'') = ''Great Run''
   \<and> fst (generateTitle (Some (\<lambda>p. Some ''  '')) ''Had a great run today''
            ''May 1, 2025'') = ''May 1, 2025''
   \<and> entries (handleFormSubmit None 1746100000000 ''May 1, 2025''
                 ''Had a great run today'' [] (emptyStore [])) =
       [\<lparr>entry_id = 1746100000000, date = ''May 1, 2025'', title = ''May 1, 2025'',
         content = ''Had a great run today'', status = Active, coachSummary = None\<rparr>]"
  using
    generateTitle_falls_back[of "''Had a great run today''" "''May 1, 2025''" "\<lambda>p. None"
      "[]" "''Had a great run today''" "[]" "emptyStore []" 1746100000000 "''May 1, 2025''"]
    generateTitle_falls_back[of "''Had a great run today''" "''May 1, 2025''"
      "\<lambda>p. Some '' Great Run ''" "'' Great Run ''"]
    generateTitle_falls_back[of "''Had a great run today''" "''May 1, 2025''"
      "\<lambda>p. Some ''  ''" "''  ''"]
  by (simp add: trim_def isWhiteSpace_def emptyStore_def handleNavigation_def
        entries_renderApp currentlyEditing_renderApp)

subsection \<open>The projection is the selection, sorted\<close>

lemma includesStr_sublist: "includesStr s q = sublist q s"
  by (induction s) (simp_all add: sublist_Cons_right)

lemma matchesQuery_spec:
  "q \<noteq> [] \<Longrightarrow> matchesQuery (toLowerCase q) e = spec_passesSearch q e"
  by (cases "coachSummary e")
     (auto simp: matchesQuery_def spec_passesSearch_def spec_substringTest_def
        includesStr_sublist truthy_def toLowerCase_def)

lemma visibleEntries_filter:
  "visibleEntries (viewStatus v) q es =
     sort_key (\<lambda>e. - entry_id e) (filter (spec_selected v q) es)"
proof (cases "q = []")
  case True
  then have "filter (spec_selected v q) es = filter (\<lambda>e. status e = viewStatus v) es"
    by (intro filter_cong) (simp_all add: spec_selected_def)
  with True show ?thesis
    by (simp add: visibleEntries_def truthy_def)
next
  case False
  then have "filter (matchesQuery (toLowerCase q)) (filter (\<lambda>e. status e = viewStatus v) es)
      = filter (spec_selected v q) es"
    by (auto simp: spec_selected_def matchesQuery_spec intro: filter_cong)
  with False show ?thesis
    by (simp add: visibleEntries_def truthy_def)
qed

lemma visibleEntries_descending:
  "sorted_wrt (\<lambda>a b. entry_id b \<le> entry_id a) (visibleEntries s q es)"
proof -
  have "sorted (map (\<lambda>e. - entry_id e) (visibleEntries s q es))"
    by (simp add: visibleEntries_def Let_def)
  then show ?thesis
    by (simp add: sorted_wrt_map)
qed

lemma articles_renderApp:
  "articlesOf (entriesContainer (renderApp st)) =
     (if currentView st = Diary
      then map (diaryArticle (expandedEntryId (renderApp st)) (searchQuery st))
             (visibleEntries Active (searchQuery st) (entries st))
      else map trashArticle (visibleEntries Trashed (searchQuery st) (entries st)))"
  by (simp add: renderApp_def renderDiaryPage_def renderTrashPage_def Let_def)

lemma data_ids_renderApp:
  "map data_id (articlesOf (entriesContainer (renderApp st))) =
     map entry_id (visibleEntries (viewStatus (currentView st)) (searchQuery st) (entries st))"
  by (cases "currentView st")
     (simp_all add: articles_renderApp diaryArticle_def trashArticle_def Let_def comp_def)

text \<open>
  Claim C4. For every list of entries, view and query, the projection \<open>visibleEntries\<close>
  holds exactly the entries, each as often as the list does, whose status is the view's
  and which, when the query is not empty, pass the case-insensitive substring test on
  title, content or summary (an absent summary counting as empty); it is in descending
  order of id; and the page \<open>renderApp\<close> builds shows one article for each of its
  entries, in its order. With an empty query the diary projection is the active entries,
  newest first; with a non-empty query every projected entry passes the test.
\<close>

theorem projection_exact:
  "mset (visibleEntries (viewStatus v) q es) = mset (filter (spec_selected v q) es) \<and>
   sorted_wrt (\<lambda>a b. entry_id b \<le> entry_id a) (visibleEntries (viewStatus v) q es) \<and>
   map data_id (articlesOf (entriesContainer (renderApp st))) =
     map entry_id (visibleEntries (viewStatus (currentView st)) (searchQuery st) (entries st)) \<and>
   visibleEntries Active [] es =
     sort_key (\<lambda>e. - entry_id e) (filter (\<lambda>e. status e = Active) es) \<and>
   (q \<noteq> [] \<longrightarrow> (\<forall>e \<in> set (visibleEntries (viewStatus v) q es). spec_passesSearch q e))"
proof -
  have "mset (visibleEntries (viewStatus v) q es) = mset (filter (spec_selected v q) es)"
    by (simp add: visibleEntries_filter)
  moreover have "visibleEntries Active [] es =
     sort_key (\<lambda>e. - entry_id e) (filter (\<lambda>e. status e = Active) es)"
    by (simp add: visibleEntries_def truthy_def)
  moreover have "q \<noteq> [] \<longrightarrow> (\<forall>e \<in> set (visibleEntries (viewStatus v) q es). spec_passesSearch q e)"
    by (simp add: visibleEntries_filter spec_selected_def)
  ultimately show ?thesis
    using visibleEntries_descending data_ids_renderApp by blast
qed

theorem projection_exact_witness:
  "visibleEntries Active ''morning''
     [\<lparr>entry_id = 100, date = ''May 1'', title = ''Morning'', content = ''x'',
       status = Active, coachSummary = None\<rparr>,
      \<lparr>entry_id = 200, date = ''May 2'', title = ''Morning mess'', content = ''y'',
       status = Trashed, coachSummary = None\<rparr>,
      \<lparr>entry_id = 300, date = ''May 3'', title = ''Lunch'', content = ''In the MORNING'',
       status = Active, coachSummary = None\<rparr>,
      \<lparr>entry_id = 400, date = ''May 4'', title = ''Dinner'', content = ''z'',
       status = Active, coachSummary = Some ''evening''\<rparr>] =
     [\<lparr>entry_id = 300, date = ''May 3'', title = ''Lunch'', content = ''In the MORNING'',
       status = Active, coachSummary = None\<rparr>,
      \<lparr>entry_id = 100, date = ''May 1'', title = ''Morning'', content = ''x'',
       status = Active, coachSummary = None\<rparr>]
   \<and> spec_passesSearch ''morning''
        \<lparr>entry_id = 300, date = ''May 3'', title = ''Lunch'', content = ''In the MORNING'',
         status = Active, coachSummary = None\<rparr>"
  using projection_exact[of Diary "''morning''"
     "[\<lparr>entry_id = 100, date = ''May 1'', title = ''Morning'', content = ''x'',
       status = Active, coachSummary = None\<rparr>,
      \<lparr>entry_id = 200, date = ''May 2'', title = ''Morning mess'', content = ''y'',
       status = Trashed, coachSummary = None\<rparr>,
      \<lparr>entry_id = 300, date = ''May 3'', title = ''Lunch'', content = ''In the MORNING'',
       status = Active, coachSummary = None\<rparr>,
      \<lparr>entry_id = 400, date = ''May 4'', title = ''Dinner'', content = ''z'',
       status = Active, coachSummary = Some ''evening''\<rparr>]" "emptyStore []"]
  by (simp add: visibleEntries_def matchesQuery_def toLowerCase_def toLowerCaseChar_def
        truthy_def)

subsection \<open>The expanded entry\<close>

text \<open>
  Claim C5. Every article of the diary page is expanded (it lacks the class
  \<open>collapsed\<close>) exactly when its id is the expanded id and the search query is empty;
  so with a query every article is collapsed.
\<close>

theorem expanded_iff:
  "a \<in> set (articlesOf (entriesContainer (renderDiaryPage st))) \<Longrightarrow>
     (\<not> collapsed a) = (expandedEntryId st = Some (data_id a) \<and> searchQuery st = []) \<and>
     (searchQuery st \<noteq> [] \<longrightarrow> collapsed a)"
  by (auto simp: renderDiaryPage_def diaryArticle_def Let_def truthy_def split: if_splits)

theorem expanded_iff_witness:
  "map collapsed (articlesOf (entriesContainer (renderDiaryPage
      \<lparr>entries = [\<lparr>entry_id = 100, date = ''May 1'', title = ''Morning'', content = ''x'',
                    status = Active, coachSummary = None\<rparr>,
                   \<lparr>entry_id = 300, date = ''May 3'', title = ''Lunch'', content = ''y'',
                    status = Active, coachSummary = None\<rparr>],
       currentlyEditingEntryId = None, currentView = Diary, searchQuery = [],
       expandedEntryId = Some 100, entriesContainer = Articles []\<rparr>))) = [True, False]"
  using expanded_iff[of "diaryArticle (Some 100) []
        \<lparr>entry_id = 100, date = ''May 1'', title = ''Morning'', content = ''x'',
         status = Active, coachSummary = None\<rparr>"
      "\<lparr>entries = [\<lparr>entry_id = 100, date = ''May 1'', title = ''Morning'', content = ''x'',
                    status = Active, coachSummary = None\<rparr>,
                   \<lparr>entry_id = 300, date = ''May 3'', title = ''Lunch'', content = ''y'',
                    status = Active, coachSummary = None\<rparr>],
       currentlyEditingEntryId = None, currentView = Diary, searchQuery = [],
       expandedEntryId = Some 100, entriesContainer = Articles []\<rparr>"]
  by (simp add: renderDiaryPage_def visibleEntries_def diaryArticle_def truthy_def Let_def)

subsection \<open>What rendering leaves alone\<close>

text \<open>
  Claim C9 as stated does not hold: rendering the diary page under a query sets
  \<open>expandedEntryId\<close> to \<open>null\<close> (line 84).
\<close>

theorem renderApp_resets_expandedEntryId:
  "expandedEntryId (renderApp
      \<lparr>entries = [\<lparr>entry_id = 100, date = ''May 1'', title = ''Morning'', content = ''x'',
                    status = Active, coachSummary = None\<rparr>],
       currentlyEditingEntryId = None, currentView = Diary, searchQuery = ''m'',
       expandedEntryId = Some 100, entriesContainer = Articles []\<rparr>) \<noteq>
   expandedEntryId
      \<lparr>entries = [\<lparr>entry_id = 100, date = ''May 1'', title = ''Morning'', content = ''x'',
                    status = Active, coachSummary = None\<rparr>],
       currentlyEditingEntryId = None, currentView = Diary, searchQuery = ''m'',
       expandedEntryId = Some 100, entriesContainer = Articles []\<rparr>"
  by (simp add: expandedEntryId_renderApp)

lemma container_renderApp_cong:
  assumes "entries st' = entries st" and "currentView st' = currentView st"
    and "searchQuery st' = searchQuery st" and "expandedEntryId st' = expandedEntryId st"
  shows "entriesContainer (renderApp st') = entriesContainer (renderApp st)"
proof (cases st)
  case st: (fields es ed v q x c)
  show ?thesis
  proof (cases st')
    case st': (fields es' ed' v' q' x' c')
    from assms st st' have "es' = es" "v' = v" "q' = q" "x' = x"
      by simp_all
    with st st' show ?thesis
      by (simp add: renderApp_def renderDiaryPage_def renderTrashPage_def Let_def)
  qed
qed

text \<open>
  Claim C9, amended. Rendering leaves the entries, the view, the query and the id being
  edited as they are; it leaves the expanded id as it is on the trash page and under an
  empty query, and resets it on the diary page under a query; and the page it builds
  depends on the entries, the view, the query and the expanded id only.
\<close>

theorem renderApp_frame:
  "entries (renderApp st) = entries st \<and>
   currentView (renderApp st) = currentView st \<and>
   searchQuery (renderApp st) = searchQuery st \<and>
   currentlyEditingEntryId (renderApp st) = currentlyEditingEntryId st \<and>
   expandedEntryId (renderApp st) =
     (if currentView st = Diary \<and> searchQuery st \<noteq> [] then None else expandedEntryId st) \<and>
   (entries st' = entries st \<and> currentView st' = currentView st \<and>
    searchQuery st' = searchQuery st \<and> expandedEntryId st' = expandedEntryId st \<longrightarrow>
      entriesContainer (renderApp st') = entriesContainer (renderApp st))"
proof -
  have "entries st' = entries st \<and> currentView st' = currentView st \<and>
    searchQuery st' = searchQuery st \<and> expandedEntryId st' = expandedEntryId st \<longrightarrow>
      entriesContainer (renderApp st') = entriesContainer (renderApp st)"
    using container_renderApp_cong by blast
  then show ?thesis
    by (simp only: entries_renderApp currentView_renderApp searchQuery_renderApp
          currentlyEditing_renderApp expandedEntryId_renderApp simp_thms)
qed

theorem renderApp_frame_witness:
  "expandedEntryId (renderApp
      \<lparr>entries = [\<lparr>entry_id = 100, date = ''May 1'', title = ''Morning'', content = ''x'',
                    status = Active, coachSummary = None\<rparr>],
       currentlyEditingEntryId = None, currentView = Diary, searchQuery = [],
       expandedEntryId = Some 100, entriesContainer = Articles []\<rparr>) = Some 100
   \<and> entriesContainer (renderApp
      \<lparr>entries = [\<lparr>entry_id = 100, date = ''May 1'', title = ''Morning'', content = ''x'',
                    status = Active, coachSummary = None\<rparr>],
       currentlyEditingEntryId = Some 7, currentView = Diary, searchQuery = [],
       expandedEntryId = Some 100, entriesContainer = Placeholder DiaryEmpty\<rparr>) =
     entriesContainer (renderApp
      \<lparr>entries = [\<lparr>entry_id = 100, date = ''May 1'', title = ''Morning'', content = ''x'',
                    status = Active, coachSummary = None\<rparr>],
       currentlyEditingEntryId = None, currentView = Diary, searchQuery = [],
       expandedEntryId = Some 100, entriesContainer = Articles []\<rparr>)"
  using renderApp_frame[of
      "\<lparr>entries = [\<lparr>entry_id = 100, date = ''May 1'', title = ''Morning'', content = ''x'',
                    status = Active, coachSummary = None\<rparr>],
       currentlyEditingEntryId = None, currentView = Diary, searchQuery = [],
       expandedEntryId = Some 100, entriesContainer = Articles []\<rparr>"
      "\<lparr>entries = [\<lparr>entry_id = 100, date = ''May 1'', title = ''Morning'', content = ''x'',
                    status = Active, coachSummary = None\<rparr>],
       currentlyEditingEntryId = Some 7, currentView = Diary, searchQuery = [],
       expandedEntryId = Some 100, entriesContainer = Placeholder DiaryEmpty\<rparr>"]
  by simp

subsection \<open>An empty summary\<close>

lemma handleAiCoach_found:
  assumes "findIndex (\<lambda>e. entry_id e = i) (entries st) = Some k"
  shows "entries (handleAiCoach ai i st) =
           (entries st)[k := (entries st ! k)\<lparr>coachSummary :=
              Some (fst (getAiCoachSummary ai (content (entries st ! k))))\<rparr>]"
  using assms findIndex_Some[OF assms]
  by (simp add: handleAiCoach_def handleAiCoach_request_def handleAiCoach_resume_def
        entries_renderApp)

text \<open>
  Claim C10. When the capability answers with a text that trims to the empty string,
  \<open>getAiCoachSummary\<close> returns the empty string, and \<open>handleAiCoach\<close> stores it as
  the entry's summary. Such an entry is treated as one without a summary: the search
  filter does not look at the summary, the article is the one of the entry without
  summary, it shows no summary and it carries the AI Coach button.
\<close>

theorem empty_summary_as_no_summary:
  assumes "trim reply = []"
  shows "(g (CoachPrompt c) = Some reply \<longrightarrow> fst (getAiCoachSummary (Some g) c) = []) \<and>
         (findIndex (\<lambda>e. entry_id e = i) (entries st) = Some k \<and>
          g (CoachPrompt (content (entries st ! k))) = Some reply \<longrightarrow>
            entries (handleAiCoach (Some g) i st) =
              (entries st)[k := (entries st ! k)\<lparr>coachSummary := Some []\<rparr>]) \<and>
         matchesQuery q (e\<lparr>coachSummary := Some []\<rparr>) =
           (includesStr (toLowerCase (title e)) q \<or> includesStr (toLowerCase (content e)) q) \<and>
         matchesQuery q (e\<lparr>coachSummary := Some []\<rparr>) =
           matchesQuery q (e\<lparr>coachSummary := None\<rparr>) \<and>
         diaryArticle x q' (e\<lparr>coachSummary := Some []\<rparr>) =
           diaryArticle x q' (e\<lparr>coachSummary := None\<rparr>) \<and>
         coachSummaryHtml (diaryArticle x q' (e\<lparr>coachSummary := Some []\<rparr>)) = None \<and>
         ButtonTarget AiCoachBtn (entry_id e)
           \<in> set (targets (diaryArticle x q' (e\<lparr>coachSummary := Some []\<rparr>)))"
proof -
  have "g (CoachPrompt c) = Some reply \<longrightarrow> fst (getAiCoachSummary (Some g) c) = []" for c
    using assms by (simp add: getAiCoachSummary_def)
  then show ?thesis
    by (simp add: handleAiCoach_found matchesQuery_def diaryArticle_def truthy_def Let_def)
qed

theorem empty_summary_as_no_summary_witness:
  "entries (handleAiCoach (Some (\<lambda>p. Some ''  '')) 100
      \<lparr>entries = [\<lparr>entry_id = 100, date = ''May 1'', title = ''Morning'', content = ''x'',
                    status = Active, coachSummary = None\<rparr>],
       currentlyEditingEntryId = None, currentView = Diary, searchQuery = [],
       expandedEntryId = None, entriesContainer = Articles []\<rparr>) =
     [\<lparr>entry_id = 100, date = ''May 1'', title = ''Morning'', content = ''x'',
       status = Active, coachSummary = Some []\<rparr>]"
  using empty_summary_as_no_summary[of "''  ''" "\<lambda>p. Some ''  ''" "''x''" 100
      "\<lparr>entries = [\<lparr>entry_id = 100, date = ''May 1'', title = ''Morning'', content = ''x'',
                    status = Active, coachSummary = None\<rparr>],
       currentlyEditingEntryId = None, currentView = Diary, searchQuery = [],
       expandedEntryId = None, entriesContainer = Articles []\<rparr>" 0]
  by (simp add: trim_def isWhiteSpace_def)

subsection \<open>Evaluating the handlers\<close>

lemmas handler_defs =
  emptyStore_def handleNavigation_def renderApp_def renderDiaryPage_def renderTrashPage_def
  visibleEntries_def diaryArticle_def trashArticle_def handleFormSubmit_defs toggleModal_def
  openEditModal_def handleDeleteEntry_def handleRestoreEntry_def handlePermanentDelete_def
  handleAiCoach_def handleAiCoach_request_def handleAiCoach_resume_def generateTitle_def
  getAiCoachSummary_def markupOn_def mayAddElements_def
  trim_def isWhiteSpace_def truthy_def Let_def

subsection \<open>Ids\<close>

lemma map_update_same: "f y = f (xs ! k) \<Longrightarrow> map f (xs[k := y]) = map f xs"
proof (cases "k < length xs")
  case True
  assume "f y = f (xs ! k)"
  with True show ?thesis
    by (simp add: map_update list_update_same_conv)
next
  case False
  then show ?thesis by (simp add: list_update_beyond)
qed

lemma ids_handleFormSubmit:
  "map entry_id (entries (handleFormSubmit ai now today c t st)) =
     (case newId (FormSubmit ai now today c t) st of
        None \<Rightarrow> map entry_id (entries st)
      | Some n \<Rightarrow> map entry_id (entries st) @ [n])"
proof (cases "trim c = []")
  case True
  then show ?thesis
    by (simp add: handleFormSubmit_defs truthy_def)
next
  case content: False
  show ?thesis
  proof (cases "truthyId (currentlyEditingEntryId st)")
    case False
    with content show ?thesis
      by (simp add: handleFormSubmit_create truthy_def)
  next
    case True
    then obtain i where i: "currentlyEditingEntryId st = Some i" "i \<noteq> 0"
      by (cases "currentlyEditingEntryId st") auto
    show ?thesis
    proof (cases "findIndex (\<lambda>e. entry_id e = i) (entries st)")
      case None
      with i True show ?thesis
        by (simp add: handleFormSubmit_missing)
    next
      case (Some k)
      with i content True show ?thesis
        by (simp add: handleFormSubmit_update map_update_same)
    qed
  qed
qed

lemma ids_handleDeleteEntry:
  "map entry_id (entries (handleDeleteEntry st)) = map entry_id (entries st)"
  by (simp add: handleDeleteEntry_def entries_renderApp toggleModal_def map_update_same
        split: option.splits)

lemma ids_handleRestoreEntry:
  "map entry_id (entries (handleRestoreEntry i st)) = map entry_id (entries st)"
  by (simp add: handleRestoreEntry_def entries_renderApp map_update_same split: option.splits)

lemma ids_handleAiCoach:
  "map entry_id (entries (handleAiCoach ai i st)) = map entry_id (entries st)"
  by (simp add: handleAiCoach_def handleAiCoach_request_def handleAiCoach_resume_def
        entries_renderApp map_update_same split: option.splits)

lemma ids_handlePermanentDelete:
  "map entry_id (entries (handlePermanentDelete c i st)) =
     (if c then filter (\<lambda>j. j \<noteq> i) (map entry_id (entries st)) else map entry_id (entries st))"
  by (simp add: handlePermanentDelete_def entries_renderApp filter_map comp_def)

lemma entries_openEditModal: "entries (openEditModal i st) = entries st"
  by (simp add: openEditModal_def toggleModal_def split: option.splits)

lemma ids_entriesContainerClick:
  "map entry_id (entries (entriesContainerClick ai c tg st)) =
     (if c \<and> (\<exists>i. tg = ButtonTarget DeletePermBtn i)
      then filter (\<lambda>j. ButtonTarget DeletePermBtn j \<noteq> tg) (map entry_id (entries st))
      else map entry_id (entries st))"
proof (cases tg)
  case (ButtonTarget b i)
  then show ?thesis
    by (cases b)
       (simp_all add: entries_openEditModal ids_handleAiCoach ids_handleRestoreEntry
          ids_handlePermanentDelete)
next
  case (HeaderTarget i)
  then show ?thesis by (simp add: entries_renderApp)
qed

lemma ids_step:
  "map entry_id (entries (step ev st)) = map entry_id (entries st) \<or>
   (\<exists>n. newId ev st = Some n \<and>
        map entry_id (entries (step ev st)) = map entry_id (entries st) @ [n]) \<or>
   (\<exists>ai i. ev = ContainerClick ai True (ButtonTarget DeletePermBtn i) \<and>
        map entry_id (entries (step ev st)) = filter (\<lambda>j. j \<noteq> i) (map entry_id (entries st)))"
proof (cases ev)
  case (FormSubmit ai now today c t)
  then show ?thesis
    using ids_handleFormSubmit[of ai now today c t st]
    by (cases "newId (FormSubmit ai now today c t) st") simp_all
next
  case (ContainerClick ai c tg)
  then show ?thesis
    using ids_entriesContainerClick[of ai c tg st]
    by (auto split: if_splits)
qed (simp_all add: toggleModal_def ids_handleDeleteEntry searchInputInput_def
       handleNavigation_def entries_renderApp)








subsection \<open>The page follows the state\<close>

lemma renderApp_idem: "renderApp (renderApp st) = renderApp st"
  by (cases st) (simp add: renderApp_def renderDiaryPage_def renderTrashPage_def Let_def)

lemma pageUpToDate_renderApp: "pageUpToDate (renderApp st)"
  by (simp add: pageUpToDate_def renderApp_idem)






text \<open>The page is up to date when the application has loaded.\<close>

lemma pageUpToDate_emptyStore: "pageUpToDate (emptyStore h)"
  by (simp add: emptyStore_def handleNavigation_def pageUpToDate_renderApp)

subsection \<open>Status transitions\<close>

lemma set_visibleEntries: "e \<in> set (visibleEntries s q es) \<Longrightarrow> e \<in> set es \<and> status e = s"
  by (auto simp: visibleEntries_def Let_def split: if_splits)










text \<open>
  Why the rule below asks for an element that a template has written: a title with
  markup allows a click that is on no template's list, and on the diary page such a
  click on a button for permanent deletion removes an active entry, the ids being
  pairwise different.
\<close>

lemma markup_allows_delete_on_diary_page:
  "enabled (ContainerClick None True (ButtonTarget DeletePermBtn 6))
     (run [FormSubmit None 5 ''May 1'' ''a''
             ''<button class=delete-perm-btn data-id=6>x</button>'',
           FormSubmit None 6 ''May 1'' ''b'' ''second''] (emptyStore []))
   \<and> \<not> hitsTemplate (ContainerClick None True (ButtonTarget DeletePermBtn 6))
     (run [FormSubmit None 5 ''May 1'' ''a''
             ''<button class=delete-perm-btn data-id=6>x</button>'',
           FormSubmit None 6 ''May 1'' ''b'' ''second''] (emptyStore []))
   \<and> map (\<lambda>e. (entry_id e, status e)) (entries
     (run [FormSubmit None 5 ''May 1'' ''a''
             ''<button class=delete-perm-btn data-id=6>x</button>'',
           FormSubmit None 6 ''May 1'' ''b'' ''second''] (emptyStore []))) =
       [(5, Active), (6, Active)]
   \<and> map (\<lambda>e. (entry_id e, status e)) (entries
     (step (ContainerClick None True (ButtonTarget DeletePermBtn 6))
     (run [FormSubmit None 5 ''May 1'' ''a''
             ''<button class=delete-perm-btn data-id=6>x</button>'',
           FormSubmit None 6 ''May 1'' ''b'' ''second''] (emptyStore [])))) =
       [(5, Active)]"
  by (simp add: handler_defs)




subsection \<open>After a permanent delete\<close>

lemma absent_findIndex:
  "i \<notin> entry_id ` set es \<Longrightarrow> findIndex (\<lambda>e. entry_id e = i) es = None"
  by (auto simp: findIndex_None)

lemma absent_mutate:
  assumes "i \<noteq> 0" and "i \<notin> entry_id ` set (entries st)"
  shows "entries (mutate i m st) = entries st"
proof (cases m)
  case (Update ai now today c t)
  with assms show ?thesis
    by (simp add: handleFormSubmit_missing[where i = i] absent_findIndex)
next
  case SoftDelete
  with assms show ?thesis
    by (simp add: handleDeleteEntry_def absent_findIndex)
next
  case Restore
  with assms show ?thesis
    by (simp add: handleRestoreEntry_def absent_findIndex)
next
  case (PermanentDelete c)
  from assms(2) have "filter (\<lambda>e. entry_id e \<noteq> i) (entries st) = entries st"
    by (auto simp: filter_id_conv)
  with PermanentDelete show ?thesis
    by (simp add: handlePermanentDelete_def entries_renderApp)
qed

lemma absent_mutateAll:
  "i \<noteq> 0 \<Longrightarrow> i \<notin> entry_id ` set (entries st) \<Longrightarrow> entries (mutateAll i ms st) = entries st"
  by (induction ms arbitrary: st) (simp_all add: absent_mutate)

lemma absent_not_shown:
  assumes "i \<notin> entry_id ` set (entries st)"
  shows "i \<notin> data_id ` set (articlesOf (entriesContainer (renderApp st)))"
proof -
  have "data_id ` set (articlesOf (entriesContainer (renderApp st))) =
      set (map data_id (articlesOf (entriesContainer (renderApp st))))"
    by simp
  also have "\<dots> = entry_id `
      set (visibleEntries (viewStatus (currentView st)) (searchQuery st) (entries st))"
    by (simp only: data_ids_renderApp set_map)
  finally show ?thesis
    using assms set_visibleEntries by blast
qed

text \<open>
  Claim C8 as stated does not hold: nothing keeps a later creation from reading the
  clock value that was the deleted id. In the run below the entry with id 5 is
  permanently deleted and a later creation reads the clock value 5, which is the id of
  no entry then in the store: the page shows an article with id 5 again, and a soft
  delete that names the id 5 changes the store.
\<close>

theorem deleted_id_returns_with_the_clock:
  "allEnabled
     [FormSubmit None 5 ''May 1'' ''a'' ''first'',
      ContainerClick None False (ButtonTarget EditBtn 5), DeleteBtnClick,
      HashChange ''#trash'', ContainerClick None True (ButtonTarget DeletePermBtn 5),
      HashChange ''#diary'',
      FormSubmit None 5 ''May 1'' ''b'' ''second''] (emptyStore [])
   \<and> clocksFresh
     [FormSubmit None 5 ''May 1'' ''a'' ''first'',
      ContainerClick None False (ButtonTarget EditBtn 5), DeleteBtnClick,
      HashChange ''#trash'', ContainerClick None True (ButtonTarget DeletePermBtn 5),
      HashChange ''#diary'',
      FormSubmit None 5 ''May 1'' ''b'' ''second''] (emptyStore [])
   \<and> entries (run
     [FormSubmit None 5 ''May 1'' ''a'' ''first'',
      ContainerClick None False (ButtonTarget EditBtn 5), DeleteBtnClick,
      HashChange ''#trash'', ContainerClick None True (ButtonTarget DeletePermBtn 5)]
     (emptyStore [])) = []
   \<and> map data_id (articlesOf (entriesContainer (run
     [FormSubmit None 5 ''May 1'' ''a'' ''first'',
      ContainerClick None False (ButtonTarget EditBtn 5), DeleteBtnClick,
      HashChange ''#trash'', ContainerClick None True (ButtonTarget DeletePermBtn 5),
      HashChange ''#diary'',
      FormSubmit None 5 ''May 1'' ''b'' ''second''] (emptyStore [])))) = [5]
   \<and> entries (mutate 5 SoftDelete (run
     [FormSubmit None 5 ''May 1'' ''a'' ''first'',
      ContainerClick None False (ButtonTarget EditBtn 5), DeleteBtnClick,
      HashChange ''#trash'', ContainerClick None True (ButtonTarget DeletePermBtn 5),
      HashChange ''#diary'',
      FormSubmit None 5 ''May 1'' ''b'' ''second''] (emptyStore []))) \<noteq>
     entries (run
     [FormSubmit None 5 ''May 1'' ''a'' ''first'',
      ContainerClick None False (ButtonTarget EditBtn 5), DeleteBtnClick,
      HashChange ''#trash'', ContainerClick None True (ButtonTarget DeletePermBtn 5),
      HashChange ''#diary'',
      FormSubmit None 5 ''May 1'' ''b'' ''second''] (emptyStore []))"
  by (simp add: handler_defs)

lemma absent_step:
  assumes "i \<notin> entry_id ` set (entries st)" and "newId ev st \<noteq> Some i"
  shows "i \<notin> entry_id ` set (entries (step ev st))"
proof -
  from assms(1) have "i \<notin> set (map entry_id (entries st))"
    by simp
  with ids_step[of ev st] assms(2)
  have "i \<notin> set (map entry_id (entries (step ev st)))"
    by (auto simp del: set_map)
  then show ?thesis by simp
qed

lemma absent_run:
  "i \<notin> entry_id ` set (entries st) \<Longrightarrow> noCreationAt i evs st \<Longrightarrow>
     i \<notin> entry_id ` set (entries (run evs st))"
proof (induction evs arbitrary: st)
  case Nil
  then show ?case by simp
next
  case (Cons ev evs)
  from Cons.prems have "i \<notin> entry_id ` set (entries (step ev st))"
    by (intro absent_step) simp_all
  with Cons show ?case by simp
qed

text \<open>
  Claim C8, amended. After a confirmed permanent delete of an id, take any run of page
  events, each handler run to its end, in which no creation reads the deleted id as its
  clock value. Then the reached store has no entry with the id; the page rendered from
  it for any view, query and expanded id has no article with the id; and any list of
  updates, soft deletes, restores and permanent deletes that name the id, each run to
  its end, leaves the store as it is. An update names an id through
  \<open>currentlyEditingEntryId\<close>, which \<open>handleFormSubmit\<close> tests by truthiness, so
  the id is not 0.
\<close>

theorem permanently_deleted_id_stays_gone:
  assumes "i \<noteq> 0"
    and "noCreationAt i evs (handlePermanentDelete True i st)"
    and "st' = run evs (handlePermanentDelete True i st)"
  shows "i \<notin> entry_id ` set (entries st') \<and>
         i \<notin> data_id ` set (articlesOf (entriesContainer
                (renderApp (st'\<lparr>currentView := v, searchQuery := q, expandedEntryId := x\<rparr>)))) \<and>
         entries (mutateAll i ms st') = entries st'"
proof -
  have "entries (handlePermanentDelete True i st) =
      filter (\<lambda>e. entry_id e \<noteq> i) (entries st)"
    by (simp add: handlePermanentDelete_def entries_renderApp)
  then have "i \<notin> entry_id ` set (entries (handlePermanentDelete True i st))"
    by auto
  from absent_run[OF this assms(2)] assms(3)
  have gone: "i \<notin> entry_id ` set (entries st')"
    by simp
  then have "i \<notin> entry_id ` set (entries
      (st'\<lparr>currentView := v, searchQuery := q, expandedEntryId := x\<rparr>))"
    by simp
  from absent_not_shown[OF this] gone absent_mutateAll[OF assms(1) gone] show ?thesis
    by simp
qed

theorem permanently_deleted_id_stays_gone_witness:
  "noCreationAt 5
      [HashChange ''#diary'', FormSubmit None 7 ''May 2'' ''c'' ''third'',
       ContainerClick None False (ButtonTarget RestoreBtn 5)]
      (handlePermanentDelete True 5
        \<lparr>entries = [\<lparr>entry_id = 5, date = ''May 1'', title = ''first'', content = ''a'',
                      status = Trashed, coachSummary = None\<rparr>,
                     \<lparr>entry_id = 6, date = ''May 1'', title = ''second'', content = ''b'',
                      status = Active, coachSummary = None\<rparr>],
         currentlyEditingEntryId = None, currentView = Trash, searchQuery = [],
         expandedEntryId = None, entriesContainer = Articles []\<rparr>)
   \<and> map entry_id (entries (mutateAll 5
      [Update None 9 ''May 2'' ''new text'' ''t'', SoftDelete, Restore, PermanentDelete True]
      (run [HashChange ''#diary'', FormSubmit None 7 ''May 2'' ''c'' ''third'',
            ContainerClick None False (ButtonTarget RestoreBtn 5)]
      (handlePermanentDelete True 5
        \<lparr>entries = [\<lparr>entry_id = 5, date = ''May 1'', title = ''first'', content = ''a'',
                      status = Trashed, coachSummary = None\<rparr>,
                     \<lparr>entry_id = 6, date = ''May 1'', title = ''second'', content = ''b'',
                      status = Active, coachSummary = None\<rparr>],
         currentlyEditingEntryId = None, currentView = Trash, searchQuery = [],
         expandedEntryId = None, entriesContainer = Articles []\<rparr>)))) = [6, 7]"
  using permanently_deleted_id_stays_gone[of 5
      "[HashChange ''#diary'', FormSubmit None 7 ''May 2'' ''c'' ''third'',
       ContainerClick None False (ButtonTarget RestoreBtn 5)]"
      "\<lparr>entries = [\<lparr>entry_id = 5, date = ''May 1'', title = ''first'', content = ''a'',
                      status = Trashed, coachSummary = None\<rparr>,
                     \<lparr>entry_id = 6, date = ''May 1'', title = ''second'', content = ''b'',
                      status = Active, coachSummary = None\<rparr>],
         currentlyEditingEntryId = None, currentView = Trash, searchQuery = [],
         expandedEntryId = None, entriesContainer = Articles []\<rparr>"
      "run [HashChange ''#diary'', FormSubmit None 7 ''May 2'' ''c'' ''third'',
            ContainerClick None False (ButtonTarget RestoreBtn 5)]
      (handlePermanentDelete True 5
        \<lparr>entries = [\<lparr>entry_id = 5, date = ''May 1'', title = ''first'', content = ''a'',
                      status = Trashed, coachSummary = None\<rparr>,
                     \<lparr>entry_id = 6, date = ''May 1'', title = ''second'', content = ''b'',
                      status = Active, coachSummary = None\<rparr>],
         currentlyEditingEntryId = None, currentView = Trash, searchQuery = [],
         expandedEntryId = None, entriesContainer = Articles []\<rparr>)"
      None "[]" Trash
      "[Update None 9 ''May 2'' ''new text'' ''t'', SoftDelete, Restore, PermanentDelete True]"]
  by (simp add: handler_defs)

subsection \<open>A title that arrives late\<close>

text \<open>
  Claim C2. When the submitted content is the stored one the handler has no
  \<open>await\<close> and lemma \<open>handleFormSubmit_update\<close> is what it does. When the content
  differs the handler waits for the title between looking the entry up and writing it,
  and the second half writes at the index the first half has found. Three entries with
  the ids 1, 2 and 3 are created; the first is trashed, the second is given a summary,
  and an edit of the second with the new content B is submitted: it waits for the title
  with index 1. While it waits the first entry is permanently deleted from the trash
  page, which moves the second entry to index 0 and the third to index 1. When the
  title arrives the write goes to index 1: the stored entry 2 keeps its content and its
  summary, the active entry 3 is overwritten, and two entries have the id 2.
\<close>

theorem handleFormSubmit_resumeEdit_stale_index:
  "snd (handleFormSubmit_request (Some (\<lambda>p. Some ''New Title'')) 9 ''May 2'' ''B'' ''typed''
     (run [FormSubmit None 1 ''May 1'' ''a'' ''first'',
           FormSubmit None 2 ''May 1'' ''b'' ''second'',
           FormSubmit None 3 ''May 1'' ''c'' ''third'',
           ContainerClick None False (ButtonTarget EditBtn 1), DeleteBtnClick,
           ContainerClick (Some (\<lambda>p. Some ''good'')) False (ButtonTarget AiCoachBtn 2),
           ContainerClick None False (ButtonTarget EditBtn 2)] (emptyStore []))) =
     EditAwaitsTitle 1 ''B'' ''New Title''
   \<and> allEnabled
        [HashChange ''#trash'', ContainerClick None True (ButtonTarget DeletePermBtn 1)]
        (fst (handleFormSubmit_request (Some (\<lambda>p. Some ''New Title'')) 9 ''May 2'' ''B'' ''typed''
          (run [FormSubmit None 1 ''May 1'' ''a'' ''first'',
                FormSubmit None 2 ''May 1'' ''b'' ''second'',
                FormSubmit None 3 ''May 1'' ''c'' ''third'',
                ContainerClick None False (ButtonTarget EditBtn 1), DeleteBtnClick,
                ContainerClick (Some (\<lambda>p. Some ''good'')) False (ButtonTarget AiCoachBtn 2),
                ContainerClick None False (ButtonTarget EditBtn 2)] (emptyStore []))))
   \<and> entries (run
        [HashChange ''#trash'', ContainerClick None True (ButtonTarget DeletePermBtn 1)]
        (fst (handleFormSubmit_request (Some (\<lambda>p. Some ''New Title'')) 9 ''May 2'' ''B'' ''typed''
          (run [FormSubmit None 1 ''May 1'' ''a'' ''first'',
                FormSubmit None 2 ''May 1'' ''b'' ''second'',
                FormSubmit None 3 ''May 1'' ''c'' ''third'',
                ContainerClick None False (ButtonTarget EditBtn 1), DeleteBtnClick,
                ContainerClick (Some (\<lambda>p. Some ''good'')) False (ButtonTarget AiCoachBtn 2),
                ContainerClick None False (ButtonTarget EditBtn 2)] (emptyStore []))))) =
       [\<lparr>entry_id = 2, date = ''May 1'', title = ''second'', content = ''b'',
         status = Active, coachSummary = Some ''good''\<rparr>,
        \<lparr>entry_id = 3, date = ''May 1'', title = ''third'', content = ''c'',
         status = Active, coachSummary = None\<rparr>]
   \<and> map_option entries (handleFormSubmit_resumeEdit 1
          \<lparr>entry_id = 2, date = ''May 1'', title = ''second'', content = ''b'',
           status = Active, coachSummary = Some ''good''\<rparr> ''B'' ''New Title''
        (run
        [HashChange ''#trash'', ContainerClick None True (ButtonTarget DeletePermBtn 1)]
        (fst (handleFormSubmit_request (Some (\<lambda>p. Some ''New Title'')) 9 ''May 2'' ''B'' ''typed''
          (run [FormSubmit None 1 ''May 1'' ''a'' ''first'',
                FormSubmit None 2 ''May 1'' ''b'' ''second'',
                FormSubmit None 3 ''May 1'' ''c'' ''third'',
                ContainerClick None False (ButtonTarget EditBtn 1), DeleteBtnClick,
                ContainerClick (Some (\<lambda>p. Some ''good'')) False (ButtonTarget AiCoachBtn 2),
                ContainerClick None False (ButtonTarget EditBtn 2)] (emptyStore [])))))) =
       Some
       [\<lparr>entry_id = 2, date = ''May 1'', title = ''second'', content = ''b'',
         status = Active, coachSummary = Some ''good''\<rparr>,
        \<lparr>entry_id = 2, date = ''May 1'', title = ''New Title'', content = ''B'',
         status = Active, coachSummary = None\<rparr>]"
  by (simp add: handler_defs)

subsection \<open>A summary that arrives late\<close>

text \<open>
  Claim C1. The second half of \<open>handleAiCoach\<close> does not look the id up again: it
  writes at the index the first half has found. Two entries with the ids 1 and 2 are
  created and a summary is requested for the first, at index 0. While the request is
  pending the first entry is trashed and permanently deleted, which moves the second
  entry to index 0. When the summary arrives it is written to the entry with id 2.
  Had the summary been requested for the second entry, at index 1, it would be dropped,
  although that entry is still in the store.
\<close>

theorem handleAiCoach_resume_stale_index:
  "handleAiCoach_request 1
     (run [FormSubmit None 1 ''May 1'' ''a'' ''first'',
           FormSubmit None 2 ''May 1'' ''b'' ''second''] (emptyStore [])) = Some (0, ''a'')
   \<and> allEnabled
        [ContainerClick None False (ButtonTarget EditBtn 1), DeleteBtnClick,
         HashChange ''#trash'', ContainerClick None True (ButtonTarget DeletePermBtn 1)]
        (run [FormSubmit None 1 ''May 1'' ''a'' ''first'',
              FormSubmit None 2 ''May 1'' ''b'' ''second''] (emptyStore []))
   \<and> entries (run
        [FormSubmit None 1 ''May 1'' ''a'' ''first'',
         FormSubmit None 2 ''May 1'' ''b'' ''second'',
         ContainerClick None False (ButtonTarget EditBtn 1), DeleteBtnClick,
         HashChange ''#trash'', ContainerClick None True (ButtonTarget DeletePermBtn 1)]
        (emptyStore [])) =
       [\<lparr>entry_id = 2, date = ''May 1'', title = ''second'', content = ''b'',
         status = Active, coachSummary = None\<rparr>]
   \<and> entries (handleAiCoach_resume 0 ''summary of a'' (run
        [FormSubmit None 1 ''May 1'' ''a'' ''first'',
         FormSubmit None 2 ''May 1'' ''b'' ''second'',
         ContainerClick None False (ButtonTarget EditBtn 1), DeleteBtnClick,
         HashChange ''#trash'', ContainerClick None True (ButtonTarget DeletePermBtn 1)]
        (emptyStore []))) =
       [\<lparr>entry_id = 2, date = ''May 1'', title = ''second'', content = ''b'',
         status = Active, coachSummary = Some ''summary of a''\<rparr>]
   \<and> handleAiCoach_request 2
     (run [FormSubmit None 1 ''May 1'' ''a'' ''first'',
           FormSubmit None 2 ''May 1'' ''b'' ''second''] (emptyStore [])) = Some (1, ''b'')
   \<and> entries (handleAiCoach_resume 1 ''summary of b'' (run
        [FormSubmit None 1 ''May 1'' ''a'' ''first'',
         FormSubmit None 2 ''May 1'' ''b'' ''second'',
         ContainerClick None False (ButtonTarget EditBtn 1), DeleteBtnClick,
         HashChange ''#trash'', ContainerClick None True (ButtonTarget DeletePermBtn 1)]
        (emptyStore []))) =
       [\<lparr>entry_id = 2, date = ''May 1'', title = ''second'', content = ''b'',
         status = Active, coachSummary = None\<rparr>]"
  by (simp add: handler_defs)

end
